theory Spec2Isabelle
  imports Main "HOL-Library.AList"
begin

section \<open>Data model\<close>

text \<open>
  The repository has two programs over one \<open>servers\<close> collection: the API backend
  (\<open>routes/servers.js\<close> with the \<open>Server\<close> model file) and the server manager (the
  second program of \<open>App.js\<close>), which starts, stops and supervises the child processes.

  The persisted \<open>Server\<close> document follows the Mongoose schema of the model file and the
  copy of it the server manager declares. \<open>status\<close> is the schema's enumeration, the
  only values the programs write. \<open>apiKeys\<close> and \<open>config\<close> are plain objects; the
  manager's schema gives them no default, so either may be undefined (\<open>None\<close>). An
  object is an association list in enumeration order. Identities are the canonical
  string form of the ObjectId. \<open>requestCount\<close> is a Number holding an integer,
  \<open>lastActivity\<close> a time in milliseconds.
\<close>

datatype status = Creating | Running | Stopped | Failed

record config =
  allowedDirectories :: "string list option"
  command :: "string option"
  args :: "string list option"
  env :: "(string \<times> string) list option"

record server =
  doc_id :: string
  name :: string
  server_type :: string
  owner :: string
  status :: status
  serverKey :: string
  endpoint :: string
  apiKeys :: "(string \<times> string) list option"
  config :: "config option"
  requestCount :: int
  lastActivity :: int

text \<open>
  Errors thrown while a handler runs. \<open>EnvError\<close> is a failure raised by the
  environment (a rejected database operation, a spawn that throws), with its message.
\<close>

datatype js_error = TypeError | ReferenceError | SyntaxError string | EnvError string

text \<open>What \<open>ws.send\<close> puts on the command channel.\<close>

record server_summary =
  summary_id :: string
  summary_name :: string
  summary_type :: string
  summary_requestCount :: int
  summary_lastActivity :: int

datatype response =
    Response bool string "js_error option"
  | StatusResponse bool string server_summary

text \<open>The effects of the manager on processes, the Registry and the store, in order.\<close>

datatype event =
    Spawned nat string "string list"
  | Killed nat
  | RegistrySet string nat
  | RegistryDelete string
  | Saved string status

text \<open>
  The state the manager's handlers run on: the \<open>servers\<close> collection in natural order,
  the \<open>runningServers\<close> map, the exit/error observers installed on spawned processes
  (process handle to the server identity the observer closes over), the next fresh
  process handle, the command-channel connection (whether it is open and what was sent
  on it), the effects so far, and a script of the outcomes of the successive calls
  to the environment (database reads and writes, process spawning): \<open>Some m\<close> makes the
  call throw with message \<open>m\<close>; once the script is used up every call succeeds.
  A handler runs to its end on this state: what other handlers do while it awaits the
  store is outside the model.
\<close>

record world =
  docs :: "server list"
  runningServers :: "string \<rightharpoonup> nat"
  observers :: "nat \<rightharpoonup> string"
  nextPid :: nat
  encryptionKey :: string
  wsOpen :: bool
  outbox :: "response list"
  trace :: "event list"
  faults :: "string option list"

definition env_call :: "world \<Rightarrow> string option \<times> world" where
  "env_call s = (case faults s of [] \<Rightarrow> (None, s) | f # fs \<Rightarrow> (f, s\<lparr>faults := fs\<rparr>))"

definition log_event :: "event \<Rightarrow> world \<Rightarrow> world" where
  "log_event e s = s\<lparr>trace := trace s @ [e]\<rparr>"

section \<open>Store and Registry operations\<close>

text \<open>
  \<open>Server.findById\<close> answers the document of that identity, or \<open>null\<close>.
  \<open>server.save()\<close> in the manager (whose schema has no hook) writes the document over
  the stored one of the same identity. \<open>runningServers.set\<close>, \<open>runningServers.delete\<close>
  and \<open>serverProcess.kill()\<close> are recorded in the trace as they happen;
  \<open>ws.send\<close> appends to what was sent on the connection.
\<close>

definition findById :: "string \<Rightarrow> world \<Rightarrow> (js_error + server option) \<times> world" where
  "findById serverId s =
     (case env_call s of
        (Some m, s1) \<Rightarrow> (Inl (EnvError m), s1)
      | (None, s1) \<Rightarrow> (Inr (find (\<lambda>d. doc_id d = serverId) (docs s1)), s1))"

definition save :: "server \<Rightarrow> world \<Rightarrow> (js_error + unit) \<times> world" where
  "save srv s =
     (case env_call s of
        (Some m, s1) \<Rightarrow> (Inl (EnvError m), s1)
      | (None, s1) \<Rightarrow>
          (Inr (), log_event (Saved (doc_id srv) (status srv))
             (s1\<lparr>docs := map (\<lambda>d. if doc_id d = doc_id srv then srv else d) (docs s1)\<rparr>)))"

definition registry_set :: "string \<Rightarrow> nat \<Rightarrow> world \<Rightarrow> world" where
  "registry_set serverId p s =
     log_event (RegistrySet serverId p) (s\<lparr>runningServers := (runningServers s)(serverId \<mapsto> p)\<rparr>)"

definition registry_delete :: "string \<Rightarrow> world \<Rightarrow> world" where
  "registry_delete serverId s =
     log_event (RegistryDelete serverId) (s\<lparr>runningServers := (runningServers s)(serverId := None)\<rparr>)"

definition kill :: "nat \<Rightarrow> world \<Rightarrow> world" where
  "kill p s = log_event (Killed p) s"

definition send :: "response \<Rightarrow> world \<Rightarrow> world" where
  "send r s = s\<lparr>outbox := outbox s @ [r]\<rparr>"

section \<open>Status command\<close>

text \<open>\<open>getServerStatus\<close> of the server manager, with every branch of its \<open>try\<close>.\<close>

definition summary :: "server \<Rightarrow> server_summary" where
  "summary srv = \<lparr>summary_id = doc_id srv, summary_name = name srv,
     summary_type = server_type srv, summary_requestCount = requestCount srv,
     summary_lastActivity = lastActivity srv\<rparr>"

definition getServerStatus :: "string \<Rightarrow> world \<Rightarrow> world" where
  "getServerStatus serverId s =
     (case findById serverId s of
        (Inl e, s1) \<Rightarrow> send (Response False ''Failed to get server status'' (Some e)) s1
      | (Inr None, s1) \<Rightarrow> send (Response False ''Server not found'' None) s1
      | (Inr (Some srv), s1) \<Rightarrow>
          send (StatusResponse True
                  (if runningServers s1 serverId \<noteq> None then ''running'' else ''stopped'')
                  (summary srv)) s1)"

section \<open>Credential decryption in the server manager\<close>

text \<open>
  The AES member of a crypto module: \<open>encrypt value key\<close> gives the ciphertext as a
  string, \<open>decrypt ciphertext key\<close> gives the plaintext decoded as UTF-8 or throws.
  Both belong to the crypto-js library, which is not part of the repository, so they are
  parameters. A module is given by its \<open>AES\<close> member, \<open>None\<close> when it has none.
\<close>

record cipher =
  encrypt :: "string \<Rightarrow> string \<Rightarrow> string"
  decrypt :: "string \<Rightarrow> string \<Rightarrow> js_error + string"

type_synonym crypto_module = "cipher option"

text \<open>
  The server manager binds \<open>crypto\<close> to \<open>require('crypto')\<close>, the built-in module of
  Node.js, which has no member \<open>AES\<close>; the model file binds it to
  \<open>require('crypto-js')\<close>, which has one.
\<close>

definition node_crypto :: crypto_module where
  "node_crypto = None"

text \<open>
  \<open>getDecryptedApiKey\<close>: the empty string when \<open>apiKeys\<close> is undefined or holds
  no non-empty value under \<open>key\<close>; otherwise \<open>crypto.AES.decrypt(...)\<close> inside
  \<open>try\<close>, where reading \<open>decrypt\<close> of an undefined \<open>crypto.AES\<close> is a TypeError,
  and every error is caught and answered by the empty string.
\<close>

definition getDecryptedApiKey :: "crypto_module \<Rightarrow> string \<Rightarrow> server \<Rightarrow> string \<Rightarrow> string" where
  "getDecryptedApiKey crypto ekey srv key =
     (case apiKeys srv of
        None \<Rightarrow> ''''
      | Some ks \<Rightarrow>
          (case map_of ks key of
             None \<Rightarrow> ''''
           | Some v \<Rightarrow>
               if v = '''' then ''''
               else (case (case crypto of None \<Rightarrow> Inl TypeError | Some aes \<Rightarrow> decrypt aes v ekey) of
                       Inl e \<Rightarrow> ''''
                     | Inr plain \<Rightarrow> plain)))"

section \<open>Process launcher\<close>

text \<open>
  \<open>spawn\<close> asks the environment; when it does not throw it returns a fresh process
  handle. \<open>setupProcessHandlers\<close> installs the exit and error observers of the process,
  which close over the server identity.
\<close>

definition spawn :: "string \<Rightarrow> string list \<Rightarrow> world \<Rightarrow> (js_error + nat) \<times> world" where
  "spawn cmd argv s =
     (case env_call s of
        (Some m, s1) \<Rightarrow> (Inl (EnvError m), s1)
      | (None, s1) \<Rightarrow>
          (Inr (nextPid s1),
           log_event (Spawned (nextPid s1) cmd argv) (s1\<lparr>nextPid := Suc (nextPid s1)\<rparr>)))"

definition setupProcessHandlers :: "nat \<Rightarrow> string \<Rightarrow> world \<Rightarrow> world" where
  "setupProcessHandlers p serverId s = s\<lparr>observers := (observers s)(p \<mapsto> serverId)\<rparr>"

text \<open>
  In \<open>startBraveSearchServer\<close>, \<open>startGithubServer\<close> and \<open>startCustomServer\<close> the
  handle is declared as \<open>const process = spawn(..., { env: { ...process.env, ... } })\<close>.
  Inside that function \<open>process\<close> names the constant being declared, which is still
  uninitialised while its initialiser is evaluated, so reading \<open>process.env\<close> there
  throws a ReferenceError before \<open>spawn\<close> is called.
\<close>

definition process_env_in_initialiser :: "js_error + (string \<times> string) list" where
  "process_env_in_initialiser = Inl ReferenceError"

definition startBraveSearchServer :: "server \<Rightarrow> world \<Rightarrow> (js_error + nat) \<times> world" where
  "startBraveSearchServer srv s =
     (let apiKey = getDecryptedApiKey node_crypto (encryptionKey s) srv ''BRAVE_API_KEY'' in
      case process_env_in_initialiser of
        Inl e \<Rightarrow> (Inl e, s)
      | Inr penv \<Rightarrow>
          (case spawn ''npx'' [''-y'', ''@modelcontextprotocol/server-brave-search''] s of
             (Inl e, s1) \<Rightarrow> (Inl e, s1)
           | (Inr p, s1) \<Rightarrow> (Inr p, setupProcessHandlers p (doc_id srv) s1)))"

definition startGithubServer :: "server \<Rightarrow> world \<Rightarrow> (js_error + nat) \<times> world" where
  "startGithubServer srv s =
     (let apiKey = getDecryptedApiKey node_crypto (encryptionKey s) srv ''GITHUB_PERSONAL_ACCESS_TOKEN'' in
      case process_env_in_initialiser of
        Inl e \<Rightarrow> (Inl e, s)
      | Inr penv \<Rightarrow>
          (case spawn ''npx'' [''-y'', ''@modelcontextprotocol/server-github''] s of
             (Inl e, s1) \<Rightarrow> (Inl e, s1)
           | (Inr p, s1) \<Rightarrow> (Inr p, setupProcessHandlers p (doc_id srv) s1)))"

text \<open>
  \<open>startFilesystemServer\<close>: reading \<open>allowedDirectories\<close> of an undefined
  \<open>config\<close> is a TypeError; an undefined list defaults to \<open>['/tmp']\<close> (an empty
  list is truthy and is kept).
\<close>

definition startFilesystemServer :: "server \<Rightarrow> world \<Rightarrow> (js_error + nat) \<times> world" where
  "startFilesystemServer srv s =
     (case config srv of
        None \<Rightarrow> (Inl TypeError, s)
      | Some cfg \<Rightarrow>
          (let allowedDirs = (case allowedDirectories cfg of None \<Rightarrow> [''/tmp''] | Some ds \<Rightarrow> ds) in
           case spawn ''npx'' ([''-y'', ''@modelcontextprotocol/server-filesystem''] @ allowedDirs) s of
             (Inl e, s1) \<Rightarrow> (Inl e, s1)
           | (Inr p, s1) \<Rightarrow> (Inr p, setupProcessHandlers p (doc_id srv) s1)))"

text \<open>
  \<open>startCustomServer\<close>: destructuring an undefined \<open>config\<close> and enumerating an
  undefined \<open>apiKeys\<close> are TypeErrors; \<open>spawn\<close> itself throws a TypeError when the
  command is undefined or empty.
\<close>

definition startCustomServer :: "server \<Rightarrow> world \<Rightarrow> (js_error + nat) \<times> world" where
  "startCustomServer srv s =
     (case config srv of
        None \<Rightarrow> (Inl TypeError, s)
      | Some cfg \<Rightarrow>
          (case apiKeys srv of
             None \<Rightarrow> (Inl TypeError, s)
           | Some ks \<Rightarrow>
               (let decryptedKeys =
                      map (\<lambda>(key, value). (key, getDecryptedApiKey node_crypto (encryptionKey s) srv key)) ks in
                case process_env_in_initialiser of
                  Inl e \<Rightarrow> (Inl e, s)
                | Inr penv \<Rightarrow>
                    (case command cfg of
                       None \<Rightarrow> (Inl TypeError, s)
                     | Some c \<Rightarrow>
                         if c = '''' then (Inl TypeError, s)
                         else (case spawn c (case args cfg of None \<Rightarrow> [] | Some a \<Rightarrow> a) s of
                                 (Inl e, s1) \<Rightarrow> (Inl e, s1)
                               | (Inr p, s1) \<Rightarrow> (Inr p, setupProcessHandlers p (doc_id srv) s1))))))"

text \<open>The \<open>switch (server.type)\<close> of \<open>startServer\<close>; \<open>None\<close> is its default branch.\<close>

definition launch :: "server \<Rightarrow> world \<Rightarrow> ((js_error + nat) \<times> world) option" where
  "launch srv s =
     (if server_type srv = ''brave-search'' then Some (startBraveSearchServer srv s)
      else if server_type srv = ''github'' then Some (startGithubServer srv s)
      else if server_type srv = ''filesystem'' then Some (startFilesystemServer srv s)
      else if server_type srv = ''custom'' then Some (startCustomServer srv s)
      else None)"

section \<open>Process supervisor\<close>

text \<open>
  \<open>startServer\<close> and \<open>stopServer\<close> of the server manager, statement by statement: the
  lookup, the \<open>runningServers.has\<close> test, the launch or the signal, the Registry update,
  the save of the new status and the reply; an error thrown on the way is answered by
  the \<open>catch\<close> with a failure reply.
\<close>

definition startServer :: "string \<Rightarrow> world \<Rightarrow> world" where
  "startServer serverId s =
     (case findById serverId s of
        (Inl e, s1) \<Rightarrow> send (Response False ''Failed to start server'' (Some e)) s1
      | (Inr None, s1) \<Rightarrow> send (Response False ''Server not found'' None) s1
      | (Inr (Some srv), s1) \<Rightarrow>
          (case runningServers s1 serverId of
             Some p \<Rightarrow> send (Response True ''Server is already running'' None) s1
           | None \<Rightarrow>
               (case launch srv s1 of
                  None \<Rightarrow> send (Response False ''Unsupported server type'' None) s1
                | Some (Inl e, s2) \<Rightarrow> send (Response False ''Failed to start server'' (Some e)) s2
                | Some (Inr p, s2) \<Rightarrow>
                    (case save (srv\<lparr>status := Running\<rparr>) (registry_set serverId p s2) of
                       (Inl e, s3) \<Rightarrow> send (Response False ''Failed to start server'' (Some e)) s3
                     | (Inr u, s3) \<Rightarrow> send (Response True ''Server started successfully'' None) s3))))"

definition stopServer :: "string \<Rightarrow> world \<Rightarrow> world" where
  "stopServer serverId s =
     (case findById serverId s of
        (Inl e, s1) \<Rightarrow> send (Response False ''Failed to stop server'' (Some e)) s1
      | (Inr None, s1) \<Rightarrow> send (Response False ''Server not found'' None) s1
      | (Inr (Some srv), s1) \<Rightarrow>
          (case runningServers s1 serverId of
             None \<Rightarrow> send (Response True ''Server is not running'' None) s1
           | Some p \<Rightarrow>
               (case save (srv\<lparr>status := Stopped\<rparr>) (registry_delete serverId (kill p s1)) of
                  (Inl e, s2) \<Rightarrow> send (Response False ''Failed to stop server'' (Some e)) s2
                | (Inr u, s2) \<Rightarrow> send (Response True ''Server stopped successfully'' None) s2)))"


definition on_exit :: "string \<Rightarrow> int option \<Rightarrow> world \<Rightarrow> world" where
  "on_exit serverId code s =
     (case findById serverId s of
        (Inl e, s1) \<Rightarrow> s1
      | (Inr None, s1) \<Rightarrow> s1
      | (Inr (Some srv), s1) \<Rightarrow>
          (case save (srv\<lparr>status := (if code = Some 0 then Stopped else Failed)\<rparr>) s1 of
             (Inl e, s2) \<Rightarrow> s2
           | (Inr u, s2) \<Rightarrow> registry_delete serverId s2))"



section \<open>Command channel\<close>



section \<open>Request router\<close>

text \<open>
  \<open>POST /mcp/:userId/:serverId\<close> of the server manager: the middleware
  \<open>verifyServerAuth\<close>, which answers 401 unless the request carries a non-empty
  \<open>X-Server-Key\<close>, and then the route's handler, given the current time.
\<close>

record request =
  header_serverKey :: "string option"
  param_userId :: string
  param_serverId :: string

datatype http_body =
    ErrorBody string
  | ProcessedBody string string
  | ApiBody bool string

datatype http_response = HttpResponse (status_code: nat) (body: http_body)

definition verifyServerAuth :: "request \<Rightarrow> http_response option" where
  "verifyServerAuth req =
     (case header_serverKey req of
        None \<Rightarrow> Some (HttpResponse 401 (ErrorBody ''Authentication required''))
      | Some k \<Rightarrow>
          if k = '''' then Some (HttpResponse 401 (ErrorBody ''Authentication required''))
          else None)"

text \<open>
  \<open>Server.findOne({ owner, endpoint: { $regex } })\<close>: the first document of the owner
  whose endpoint the pattern matches. The matching relation of the database's regular
  expressions is a parameter (pattern first, subject second).
\<close>

definition findOne ::
  "(string \<Rightarrow> string \<Rightarrow> bool) \<Rightarrow> string \<Rightarrow> string \<Rightarrow> world \<Rightarrow> (js_error + server option) \<times> world" where
  "findOne regex uid pattern s =
     (case env_call s of
        (Some m, s1) \<Rightarrow> (Inl (EnvError m), s1)
      | (None, s1) \<Rightarrow>
          (Inr (find (\<lambda>d. owner d = uid \<and> regex pattern (endpoint d)) (docs s1)), s1))"

text \<open>
  \<open>requestCount += 1\<close> on a Number holding an integer: exact while the sum is within
  \<open>2^53\<close>; beyond, the sum is rounded to the nearest representable value, ties to the
  even significand.
\<close>

definition number_add_one :: "int \<Rightarrow> int" where
  "number_add_one n =
     (if \<bar>n + 1\<bar> \<le> 2 ^ 53 then n + 1
      else if \<bar>n\<bar> < 2 ^ 54 then (if even (n div 2) then n else n + 2)
      else n)"

definition mcp_handler ::
  "(string \<Rightarrow> string \<Rightarrow> bool) \<Rightarrow> int \<Rightarrow> request \<Rightarrow> world \<Rightarrow> http_response \<times> world" where
  "mcp_handler regex now req s =
     (case findOne regex (param_userId req) (param_serverId req) s of
        (Inl e, s1) \<Rightarrow> (HttpResponse 500 (ErrorBody ''Internal server error''), s1)
      | (Inr None, s1) \<Rightarrow> (HttpResponse 404 (ErrorBody ''Server not found''), s1)
      | (Inr (Some srv), s1) \<Rightarrow>
          if status srv \<noteq> Running then (HttpResponse 503 (ErrorBody ''Server is not running''), s1)
          else
            (case runningServers s1 (doc_id srv) of
               None \<Rightarrow> (HttpResponse 503 (ErrorBody ''Server process not found''), s1)
             | Some p \<Rightarrow>
                 (case save (srv\<lparr>requestCount := number_add_one (requestCount srv),
                                  lastActivity := now\<rparr>) s1 of
                    (Inl e, s2) \<Rightarrow> (HttpResponse 500 (ErrorBody ''Internal server error''), s2)
                  | (Inr u, s2) \<Rightarrow>
                      (HttpResponse 200 (ProcessedBody (name srv) ''Request processed successfully''), s2))))"

definition post_mcp ::
  "(string \<Rightarrow> string \<Rightarrow> bool) \<Rightarrow> int \<Rightarrow> request \<Rightarrow> world \<Rightarrow> http_response \<times> world" where
  "post_mcp regex now req s =
     (case verifyServerAuth req of
        Some denied \<Rightarrow> (denied, s)
      | None \<Rightarrow> mcp_handler regex now req s)"

section \<open>Credential write path of the API backend\<close>

text \<open>
  The \<open>pre('save')\<close> hook of the model file, given whether Mongoose reports the path
  \<open>apiKeys\<close> as modified: it then replaces every value of \<open>apiKeys\<close> by its
  encryption. \<open>Object.keys\<close> of an undefined \<open>apiKeys\<close> is a TypeError.
\<close>

definition pre_save :: "cipher \<Rightarrow> string \<Rightarrow> bool \<Rightarrow> server \<Rightarrow> js_error + server" where
  "pre_save aes ekey isModified_apiKeys srv =
     (if isModified_apiKeys then
        (case apiKeys srv of
           None \<Rightarrow> Inl TypeError
         | Some ks \<Rightarrow>
             if length ks > 0
             then Inr (srv\<lparr>apiKeys := Some (map (\<lambda>(key, value). (key, encrypt aes value ekey)) ks)\<rparr>)
             else Inr srv)
      else Inr srv)"

definition model_save ::
  "cipher \<Rightarrow> string \<Rightarrow> bool \<Rightarrow> server \<Rightarrow> world \<Rightarrow> (js_error + unit) \<times> world" where
  "model_save aes ekey isModified_apiKeys srv s =
     (case pre_save aes ekey isModified_apiKeys srv of
        Inl e \<Rightarrow> (Inl e, s)
      | Inr srv' \<Rightarrow> save srv' s)"

definition getDecryptedApiKeys :: "cipher \<Rightarrow> string \<Rightarrow> server \<Rightarrow> js_error + (string \<times> string) list" where
  "getDecryptedApiKeys aes ekey srv =
     (case apiKeys srv of
        None \<Rightarrow> Inl TypeError
      | Some ks \<Rightarrow>
          Inr (map (\<lambda>(key, value).
                 (key, case decrypt aes value ekey of Inl e \<Rightarrow> '''' | Inr plain \<Rightarrow> plain)) ks))"

text \<open>
  \<open>PUT /:id/apikey\<close>, for a request that passed \<open>authenticate\<close> and
  \<open>validateApiKey\<close>. The assignment \<open>server.apiKeys = { ...server.apiKeys, [key]: value }\<close>
  marks the path modified when the new object differs from the loaded one.
\<close>

record user =
  user_id :: string
  role :: string

definition put_apikey ::
  "cipher \<Rightarrow> string \<Rightarrow> user \<Rightarrow> string \<Rightarrow> string \<Rightarrow> string \<Rightarrow> world \<Rightarrow> http_response \<times> world" where
  "put_apikey aes ekey usr serverId key value s =
     (case findById serverId s of
        (Inl e, s1) \<Rightarrow> (HttpResponse 500 (ApiBody False ''Failed to update API key''), s1)
      | (Inr None, s1) \<Rightarrow> (HttpResponse 404 (ApiBody False ''Server not found''), s1)
      | (Inr (Some srv), s1) \<Rightarrow>
          if owner srv \<noteq> user_id usr \<and> role usr \<noteq> ''admin''
          then (HttpResponse 403 (ApiBody False ''Not authorized to modify this server''), s1)
          else
            (let keys' = Some (AList.update key value (case apiKeys srv of None \<Rightarrow> [] | Some ks \<Rightarrow> ks)) in
             case model_save aes ekey (keys' \<noteq> apiKeys srv) (srv\<lparr>apiKeys := keys'\<rparr>) s1 of
               (Inl e, s2) \<Rightarrow> (HttpResponse 500 (ApiBody False ''Failed to update API key''), s2)
             | (Inr u, s2) \<Rightarrow> (HttpResponse 200 (ApiBody True ''API key saved successfully''), s2)))"

section \<open>Concrete inputs\<close>

definition files_server :: server where
  "files_server =
     \<lparr>doc_id = ''s1'', name = ''files'', server_type = ''filesystem'', owner = ''u1'',
      status = Running, serverKey = ''k1'', endpoint = ''https://localhost:3001/mcp/u1/e1'',
      apiKeys = Some [],
      config = Some \<lparr>allowedDirectories = None, command = None, args = None, env = None\<rparr>,
      requestCount = 4, lastActivity = 100\<rparr>"

definition custom_server :: server where
  "custom_server =
     \<lparr>doc_id = ''s2'', name = ''tool'', server_type = ''custom'', owner = ''u1'',
      status = Creating, serverKey = ''k2'', endpoint = ''https://localhost:3001/mcp/u1/e2'',
      apiKeys = Some [],
      config = Some \<lparr>allowedDirectories = None, command = None, args = None, env = None\<rparr>,
      requestCount = 0, lastActivity = 0\<rparr>"

text \<open>A manager in which \<open>s1\<close> runs as process 7 and \<open>s2\<close> was never started.\<close>

definition running_world :: world where
  "running_world =
     \<lparr>docs = [files_server, custom_server],
      runningServers = [''s1'' \<mapsto> 7],
      observers = [7 \<mapsto> ''s1''],
      nextPid = 8, encryptionKey = ''secret'', wsOpen = True,
      outbox = [], trace = [], faults = []\<rparr>"




text \<open>
  A pattern without metacharacters matches a subject that contains it; requests for
  the endpoints of \<open>s1\<close> and \<open>s2\<close> and for an endpoint nobody owns.
\<close>

fun literal_search :: "string \<Rightarrow> string \<Rightarrow> bool" where
  "literal_search pattern [] = (pattern = [])"
| "literal_search pattern (c # cs) =
     (if take (length pattern) (c # cs) = pattern then True else literal_search pattern cs)"

definition request_for :: "string \<Rightarrow> request" where
  "request_for e = \<lparr>header_serverKey = Some ''k1'', param_userId = ''u1'', param_serverId = e\<rparr>"

definition owner_u1 :: user where
  "owner_u1 = \<lparr>user_id = ''u1'', role = ''user''\<rparr>"

section \<open>Lemmas about the store, the Registry and the launcher\<close>

lemma env_call_frame:
  "env_call s = (r, s1) \<Longrightarrow>
     docs s1 = docs s \<and> runningServers s1 = runningServers s \<and> trace s1 = trace s \<and>
     outbox s1 = outbox s \<and> observers s1 = observers s \<and> nextPid s1 = nextPid s \<and>
     wsOpen s1 = wsOpen s \<and> encryptionKey s1 = encryptionKey s"
  by (auto simp: env_call_def split: list.splits)

lemma findById_frame:
  "findById serverId s = (r, s1) \<Longrightarrow>
     docs s1 = docs s \<and> runningServers s1 = runningServers s \<and> trace s1 = trace s \<and>
     outbox s1 = outbox s \<and> observers s1 = observers s \<and> nextPid s1 = nextPid s \<and>
     wsOpen s1 = wsOpen s \<and> encryptionKey s1 = encryptionKey s"
  by (auto simp: findById_def split: prod.splits option.splits dest: env_call_frame)

lemma env_call_no_faults: "faults s = [] \<Longrightarrow> env_call s = (None, s)"
  by (simp add: env_call_def)

lemma findById_no_faults:
  "faults s = [] \<Longrightarrow> findById serverId s = (Inr (find (\<lambda>d. doc_id d = serverId) (docs s)), s)"
  by (simp add: findById_def env_call_no_faults)

lemma save_no_faults:
  "faults s = [] \<Longrightarrow>
     save srv s = (Inr (), log_event (Saved (doc_id srv) (status srv))
        (s\<lparr>docs := map (\<lambda>d. if doc_id d = doc_id srv then srv else d) (docs s)\<rparr>))"
  by (simp add: save_def env_call_no_faults)

lemma find_doc_id: "find (\<lambda>d. doc_id d = k) ds = Some srv \<Longrightarrow> doc_id srv = k"
  by (induction ds) (auto split: if_splits)

lemma find_after_update:
  "find (\<lambda>d. doc_id d = k) ds = Some srv \<Longrightarrow> doc_id srv' = k \<Longrightarrow>
     find (\<lambda>d. doc_id d = k) (map (\<lambda>d. if doc_id d = k then srv' else d) ds) = Some srv'"
  by (induction ds) (auto split: if_splits)

lemma stopServer_not_running_eq:
  "findById serverId s = (Inr (Some srv), s1) \<Longrightarrow> runningServers s serverId = None \<Longrightarrow>
     stopServer serverId s = send (Response True ''Server is not running'' None) s1"
  using findById_frame [of serverId s "Inr (Some srv)" s1] by (simp add: stopServer_def)

lemma spawn_failure_frame:
  "spawn cmd argv s = (Inl e, s1) \<Longrightarrow>
     docs s1 = docs s \<and> runningServers s1 = runningServers s \<and> trace s1 = trace s \<and>
     outbox s1 = outbox s \<and> observers s1 = observers s \<and> nextPid s1 = nextPid s"
  by (auto simp: spawn_def split: prod.splits option.splits dest: env_call_frame)

lemma startFilesystemServer_failure_frame:
  assumes "startFilesystemServer srv s = (Inl e, s1)"
  shows "docs s1 = docs s \<and> runningServers s1 = runningServers s \<and> trace s1 = trace s \<and>
     outbox s1 = outbox s \<and> observers s1 = observers s \<and> nextPid s1 = nextPid s"
proof (cases "config srv")
  case None
  with assms show ?thesis by (simp add: startFilesystemServer_def)
next
  case (Some cfg)
  let ?argv = "[''-y'', ''@modelcontextprotocol/server-filesystem''] @
      (case allowedDirectories cfg of None \<Rightarrow> [''/tmp''] | Some ds \<Rightarrow> ds)"
  obtain r s' where sp: "spawn ''npx'' ?argv s = (r, s')" by (cases "spawn ''npx'' ?argv s")
  show ?thesis
  proof (cases r)
    case (Inl e')
    with assms Some sp have "s1 = s'" by (simp add: startFilesystemServer_def)
    with sp Inl show ?thesis using spawn_failure_frame by blast
  next
    case (Inr p)
    with assms Some sp show ?thesis by (simp add: startFilesystemServer_def)
  qed
qed

text \<open>
  The three launchers that read \<open>process.env\<close> inside the initialiser of
  \<open>process\<close> never reach \<open>spawn\<close>.
\<close>

lemma startBraveSearchServer_fails: "startBraveSearchServer srv s = (Inl ReferenceError, s)"
  by (simp add: startBraveSearchServer_def process_env_in_initialiser_def)

lemma startGithubServer_fails: "startGithubServer srv s = (Inl ReferenceError, s)"
  by (simp add: startGithubServer_def process_env_in_initialiser_def)

lemma startCustomServer_fails:
  "startCustomServer srv s = (r, s1) \<Longrightarrow> s1 = s \<and> (r = Inl TypeError \<or> r = Inl ReferenceError)"
  by (cases "config srv"; cases "apiKeys srv")
     (auto simp: startCustomServer_def process_env_in_initialiser_def)

lemma launch_failure_frame:
  assumes "launch srv s = Some (Inl e, s1)"
  shows "docs s1 = docs s \<and> runningServers s1 = runningServers s \<and> trace s1 = trace s \<and>
     outbox s1 = outbox s \<and> observers s1 = observers s \<and> nextPid s1 = nextPid s"
proof -
  consider "startBraveSearchServer srv s = (Inl e, s1)" | "startGithubServer srv s = (Inl e, s1)"
    | "startFilesystemServer srv s = (Inl e, s1)" | "startCustomServer srv s = (Inl e, s1)"
    using assms by (auto simp: launch_def split: if_splits)
  then show ?thesis
  proof cases
    case 1 then show ?thesis by (simp add: startBraveSearchServer_fails)
  next
    case 2 then show ?thesis by (simp add: startGithubServer_fails)
  next
    case 3 then show ?thesis by (rule startFilesystemServer_failure_frame)
  next
    case 4 then show ?thesis using startCustomServer_fails by blast
  qed
qed

text \<open>Every launch that succeeds has installed the observers of the new process.\<close>

lemma launch_installs_observers:
  assumes "launch srv s = Some (Inr p, s1)"
  shows "observers s1 p = Some (doc_id srv)"
proof -
  have "startFilesystemServer srv s = (Inr p, s1)"
    using assms startCustomServer_fails [of srv s "Inr p" s1]
    by (auto simp: launch_def startBraveSearchServer_fails startGithubServer_fails split: if_splits)
  then show ?thesis
    by (auto simp: startFilesystemServer_def setupProcessHandlers_def Let_def
          split: option.splits prod.splits sum.splits)
qed

lemma stopServer_running_eq:
  assumes "faults s = []"
    and "find (\<lambda>d. doc_id d = serverId) (docs s) = Some srv"
    and "runningServers s serverId = Some p"
  shows "stopServer serverId s =
      send (Response True ''Server stopped successfully'' None)
        (log_event (Saved serverId Stopped)
          ((registry_delete serverId (kill p s))
             \<lparr>docs := map (\<lambda>d. if doc_id d = serverId then srv\<lparr>status := Stopped\<rparr> else d) (docs s)\<rparr>))"
proof -
  have k: "doc_id srv = serverId" using assms(2) by (rule find_doc_id)
  let ?s2 = "registry_delete serverId (kill p s)"
  have f2: "faults ?s2 = []" using assms(1) by (simp add: registry_delete_def kill_def log_event_def)
  have d2: "docs ?s2 = docs s" by (simp add: registry_delete_def kill_def log_event_def)
  show ?thesis
    using assms k by (simp add: stopServer_def findById_no_faults save_no_faults [OF f2] d2)
qed

lemma stopServer_leaves_stopped:
  assumes "faults s = []"
    and "find (\<lambda>d. doc_id d = serverId) (docs s) = Some srv"
  shows "faults (stopServer serverId s) = [] \<and>
         runningServers (stopServer serverId s) serverId = None \<and>
         (\<exists>srv'. find (\<lambda>d. doc_id d = serverId) (docs (stopServer serverId s)) = Some srv')"
proof (cases "runningServers s serverId")
  case None
  have "stopServer serverId s = send (Response True ''Server is not running'' None) s"
    using assms None by (simp add: stopServer_not_running_eq findById_no_faults)
  then show ?thesis using assms None by (simp add: send_def)
next
  case (Some p)
  have k: "doc_id srv = serverId" using assms(2) by (rule find_doc_id)
  have u: "find (\<lambda>d. doc_id d = serverId)
      (map (\<lambda>d. if doc_id d = serverId then srv\<lparr>status := Stopped\<rparr> else d) (docs s)) =
        Some (srv\<lparr>status := Stopped\<rparr>)"
    using find_after_update [OF assms(2), of "srv\<lparr>status := Stopped\<rparr>"] k by simp
  show ?thesis
    using assms(1) u
    by (simp add: stopServer_running_eq [OF assms Some] send_def log_event_def
          registry_delete_def kill_def)
qed

text \<open>
  When the record is no longer in the store, or the lookup is rejected, the observer ends
  in its \<open>catch\<close> before it reaches the Registry.
\<close>

lemma on_exit_without_record:
  "faults s = [] \<Longrightarrow> find (\<lambda>d. doc_id d = serverId) (docs s) = None \<Longrightarrow>
     on_exit serverId code s = s"
  by (simp add: on_exit_def findById_no_faults)

lemma on_exit_lookup_rejected:
  "faults s = Some m # fs \<Longrightarrow>
     runningServers (on_exit serverId code s) = runningServers s \<and>
     docs (on_exit serverId code s) = docs s"
  by (simp add: on_exit_def findById_def env_call_def)

section \<open>Lemmas about replies\<close>
















section \<open>Lemmas about the router\<close>

lemma findOne_no_faults:
  "faults s = [] \<Longrightarrow>
     findOne regex uid pattern s =
       (Inr (find (\<lambda>d. owner d = uid \<and> regex pattern (endpoint d)) (docs s)), s)"
  by (simp add: findOne_def env_call_no_faults)

lemma findOne_frame:
  "findOne regex uid pattern s = (r, s1) \<Longrightarrow>
     docs s1 = docs s \<and> runningServers s1 = runningServers s \<and> trace s1 = trace s"
  by (auto simp: findOne_def split: prod.splits option.splits dest: env_call_frame)

lemma find_in_set: "find P ds = Some d \<Longrightarrow> d \<in> set ds"
  by (induction ds) (auto split: if_splits)

lemma find_after_update_member:
  "srv \<in> set ds \<Longrightarrow> doc_id srv' = doc_id srv \<Longrightarrow>
     find (\<lambda>d. doc_id d = doc_id srv) (map (\<lambda>d. if doc_id d = doc_id srv then srv' else d) ds) = Some srv'"
  by (induction ds) auto

lemma number_add_one_exact: "\<bar>n + 1\<bar> \<le> 2 ^ 53 \<Longrightarrow> number_add_one n = n + 1"
  by (simp add: number_add_one_def)

lemma mcp_handler_forwarded:
  assumes "fst (mcp_handler regex now req s) = HttpResponse 200 b"
  shows "\<exists>srv p. fst (findOne regex (param_userId req) (param_serverId req) s) = Inr (Some srv) \<and>
           status srv = Running \<and> runningServers s (doc_id srv) = Some p"
proof -
  obtain r s1 where f: "findOne regex (param_userId req) (param_serverId req) s = (r, s1)"
    by (cases "findOne regex (param_userId req) (param_serverId req) s")
  have rs: "runningServers s1 = runningServers s" using findOne_frame [OF f] by simp
  show ?thesis using assms f rs
    by (auto simp: mcp_handler_def split: sum.splits option.splits if_splits prod.splits)
qed

lemma resolve_e1:
  "find (\<lambda>d. owner d = ''u1'' \<and> literal_search ''e1'' (endpoint d)) (docs running_world) = Some files_server"
  by (simp add: running_world_def files_server_def)

lemma resolve_e2:
  "find (\<lambda>d. owner d = ''u1'' \<and> literal_search ''e2'' (endpoint d)) (docs running_world) = Some custom_server"
  by (simp add: running_world_def files_server_def custom_server_def)

lemma resolve_e9:
  "find (\<lambda>d. owner d = ''u1'' \<and> literal_search ''e9'' (endpoint d)) (docs running_world) = None"
  by (simp add: running_world_def files_server_def custom_server_def)

section \<open>Stop\<close>

text \<open>
  C1, as the specification states it, fails: with \<open>s1\<close> running as process 7,
  \<open>stopServer\<close> signals the process first and deletes the Registry entry afterwards;
  no Registry deletion precedes the signal.
\<close>

theorem stopServer_removal_first_counterexample:
  "trace (stopServer ''s1'' running_world) =
     [Killed 7, RegistryDelete ''s1'', Saved ''s1'' Stopped] \<and>
   RegistryDelete ''s1'' \<notin>
     set (takeWhile (\<lambda>e. e \<noteq> Killed 7) (trace (stopServer ''s1'' running_world)))"
  by (simp add: stopServer_def findById_def env_call_def save_def registry_delete_def kill_def
        log_event_def send_def running_world_def files_server_def custom_server_def)

text \<open>
  C1, amended. For a server identity whose record is in the store and which has a live
  Registry entry, when the store answers, \<open>stopServer\<close> performs exactly these effects
  in this order: it signals termination to the stored process handle, then removes the
  entry from the Registry, then persists status \<open>stopped\<close>; afterwards the entry is
  gone, the record is the old one with status \<open>stopped\<close>, and the reply is a success.
\<close>

theorem stopServer_signal_then_remove:
  assumes "faults s = []"
    and "find (\<lambda>d. doc_id d = serverId) (docs s) = Some srv"
    and "runningServers s serverId = Some p"
  shows "trace (stopServer serverId s) =
           trace s @ [Killed p, RegistryDelete serverId, Saved serverId Stopped] \<and>
         runningServers (stopServer serverId s) = (runningServers s)(serverId := None) \<and>
         find (\<lambda>d. doc_id d = serverId) (docs (stopServer serverId s)) = Some (srv\<lparr>status := Stopped\<rparr>) \<and>
         outbox (stopServer serverId s) = outbox s @ [Response True ''Server stopped successfully'' None]"
proof -
  have k: "doc_id srv = serverId" using assms(2) by (rule find_doc_id)
  have u: "find (\<lambda>d. doc_id d = serverId)
      (map (\<lambda>d. if doc_id d = serverId then srv\<lparr>status := Stopped\<rparr> else d) (docs s)) =
        Some (srv\<lparr>status := Stopped\<rparr>)"
    using find_after_update [OF assms(2), of "srv\<lparr>status := Stopped\<rparr>"] k by simp
  show ?thesis
    using u
    by (simp add: stopServer_running_eq [OF assms] send_def log_event_def registry_delete_def kill_def)
qed

theorem stopServer_signal_then_remove_witness:
  "faults running_world = [] \<and>
   find (\<lambda>d. doc_id d = ''s1'') (docs running_world) = Some files_server \<and>
   runningServers running_world ''s1'' = Some 7 \<and>
   trace (stopServer ''s1'' running_world) =
     trace running_world @ [Killed 7, RegistryDelete ''s1'', Saved ''s1'' Stopped] \<and>
   runningServers (stopServer ''s1'' running_world) ''s1'' = None \<and>
   find (\<lambda>d. doc_id d = ''s1'') (docs (stopServer ''s1'' running_world)) =
     Some (files_server\<lparr>status := Stopped\<rparr>)"
proof -
  have h1: "faults running_world = []" by (simp add: running_world_def)
  have h2: "find (\<lambda>d. doc_id d = ''s1'') (docs running_world) = Some files_server"
    by (simp add: running_world_def files_server_def)
  have h3: "runningServers running_world ''s1'' = Some 7" by (simp add: running_world_def)
  show ?thesis using stopServer_signal_then_remove [OF h1 h2 h3] h1 h2 h3 by simp
qed

text \<open>
  C4. For a server identity whose record the store finds and which has no Registry
  entry, \<open>stopServer\<close> replies with a success, sends no termination signal (it has no
  effect at all on processes, Registry or store) and leaves the Registry and the
  persisted records as they were. Hence, when the store answers, a stop followed by a
  second stop is idempotent: after the first the entry is absent, and the second only
  replies with a success.
\<close>

theorem stopServer_without_entry:
  "(findById serverId s = (Inr (Some srv), s1) \<and> runningServers s serverId = None \<longrightarrow>
      outbox (stopServer serverId s) = outbox s @ [Response True ''Server is not running'' None] \<and>
      trace (stopServer serverId s) = trace s \<and>
      runningServers (stopServer serverId s) = runningServers s \<and>
      docs (stopServer serverId s) = docs s) \<and>
   (faults s = [] \<and> find (\<lambda>d. doc_id d = serverId) (docs s) = Some srv \<longrightarrow>
      runningServers (stopServer serverId s) serverId = None \<and>
      outbox (stopServer serverId (stopServer serverId s)) =
        outbox (stopServer serverId s) @ [Response True ''Server is not running'' None] \<and>
      trace (stopServer serverId (stopServer serverId s)) = trace (stopServer serverId s) \<and>
      runningServers (stopServer serverId (stopServer serverId s)) =
        runningServers (stopServer serverId s) \<and>
      docs (stopServer serverId (stopServer serverId s)) = docs (stopServer serverId s))"
proof (intro conjI impI)
  assume a: "findById serverId s = (Inr (Some srv), s1) \<and> runningServers s serverId = None"
  then have eq: "stopServer serverId s = send (Response True ''Server is not running'' None) s1"
    by (simp add: stopServer_not_running_eq)
  from a have fr: "docs s1 = docs s \<and> runningServers s1 = runningServers s \<and> trace s1 = trace s \<and>
     outbox s1 = outbox s" using findById_frame by blast
  show "outbox (stopServer serverId s) = outbox s @ [Response True ''Server is not running'' None]"
    and "trace (stopServer serverId s) = trace s"
    and "runningServers (stopServer serverId s) = runningServers s"
    and "docs (stopServer serverId s) = docs s"
    using fr by (simp_all add: eq send_def)
next
  assume b: "faults s = [] \<and> find (\<lambda>d. doc_id d = serverId) (docs s) = Some srv"
  let ?s' = "stopServer serverId s"
  from b obtain srv' where f: "faults ?s' = []" and r: "runningServers ?s' serverId = None"
    and d: "find (\<lambda>d. doc_id d = serverId) (docs ?s') = Some srv'"
    using stopServer_leaves_stopped [of s serverId srv] by blast
  have second: "stopServer serverId ?s' = send (Response True ''Server is not running'' None) ?s'"
    using stopServer_not_running_eq [of serverId ?s' srv' ?s'] f r d
    by (simp add: findById_no_faults)
  show "runningServers ?s' serverId = None" by (rule r)
  show "outbox (stopServer serverId ?s') = outbox ?s' @ [Response True ''Server is not running'' None]"
    and "trace (stopServer serverId ?s') = trace ?s'"
    and "runningServers (stopServer serverId ?s') = runningServers ?s'"
    and "docs (stopServer serverId ?s') = docs ?s'"
    by (simp_all add: second send_def)
qed

text \<open>
  The witness: \<open>s2\<close> has no Registry entry, so stopping it only replies; \<open>s1\<close> runs,
  so its first stop signals process 7 once and its second stop signals nothing.
\<close>

theorem stopServer_without_entry_witness:
  "findById ''s2'' running_world = (Inr (Some custom_server), running_world) \<and>
   runningServers running_world ''s2'' = None \<and>
   outbox (stopServer ''s2'' running_world) = [Response True ''Server is not running'' None] \<and>
   trace (stopServer ''s2'' running_world) = [] \<and>
   faults running_world = [] \<and>
   find (\<lambda>d. doc_id d = ''s1'') (docs running_world) = Some files_server \<and>
   runningServers (stopServer ''s1'' running_world) ''s1'' = None \<and>
   trace (stopServer ''s1'' (stopServer ''s1'' running_world)) = trace (stopServer ''s1'' running_world)"
proof -
  have h1: "findById ''s2'' running_world = (Inr (Some custom_server), running_world)"
    by (simp add: findById_def env_call_def running_world_def files_server_def custom_server_def)
  have h2: "runningServers running_world ''s2'' = None" by (simp add: running_world_def)
  have h3: "faults running_world = []" by (simp add: running_world_def)
  have h4: "find (\<lambda>d. doc_id d = ''s1'') (docs running_world) = Some files_server"
    by (simp add: running_world_def files_server_def)
  have o: "outbox running_world = [] \<and> trace running_world = []" by (simp add: running_world_def)
  show ?thesis
    using stopServer_without_entry [of "''s2''" running_world custom_server running_world]
      stopServer_without_entry [of "''s1''" running_world files_server running_world]
      h1 h2 h3 h4 o
    by simp
qed

section \<open>Termination observers\<close>



section \<open>Start\<close>

text \<open>
  C3. For a server identity whose record the store finds and for which a Registry entry
  already exists, \<open>startServer\<close> replies with a success and spawns no process: it has
  no effect on processes, Registry or store, allocates no process handle, and leaves
  the Registry and the persisted records as they were.
\<close>

theorem startServer_already_running:
  assumes "findById serverId s = (Inr (Some srv), s1)"
    and "runningServers s serverId = Some p"
  shows "outbox (startServer serverId s) = outbox s @ [Response True ''Server is already running'' None] \<and>
         trace (startServer serverId s) = trace s \<and>
         nextPid (startServer serverId s) = nextPid s \<and>
         runningServers (startServer serverId s) = runningServers s \<and>
         docs (startServer serverId s) = docs s"
proof -
  have fr: "docs s1 = docs s \<and> runningServers s1 = runningServers s \<and> trace s1 = trace s \<and>
     outbox s1 = outbox s \<and> nextPid s1 = nextPid s"
    using findById_frame [OF assms(1)] by simp
  have eq: "startServer serverId s = send (Response True ''Server is already running'' None) s1"
    using assms fr by (simp add: startServer_def)
  show ?thesis using fr by (simp add: eq send_def)
qed

theorem startServer_already_running_witness:
  "findById ''s1'' running_world = (Inr (Some files_server), running_world) \<and>
   runningServers running_world ''s1'' = Some 7 \<and>
   outbox (startServer ''s1'' running_world) = [Response True ''Server is already running'' None] \<and>
   trace (startServer ''s1'' running_world) = [] \<and>
   nextPid (startServer ''s1'' running_world) = 8 \<and>
   runningServers (startServer ''s1'' running_world) = runningServers running_world \<and>
   docs (startServer ''s1'' running_world) = docs running_world"
proof -
  have h1: "findById ''s1'' running_world = (Inr (Some files_server), running_world)"
    by (simp add: findById_def env_call_def running_world_def files_server_def)
  have h2: "runningServers running_world ''s1'' = Some 7" by (simp add: running_world_def)
  have o: "outbox running_world = [] \<and> trace running_world = [] \<and> nextPid running_world = 8"
    by (simp add: running_world_def)
  show ?thesis using startServer_already_running [OF h1 h2] h1 h2 o by simp
qed

text \<open>
  C5, as the specification states it, fails: starting the custom server \<open>s2\<close>, whose
  configuration names no command, ends in a launch error, and afterwards the persisted
  status of \<open>s2\<close> is still \<open>creating\<close>, not \<open>failed\<close>.
\<close>

theorem startServer_launch_failure_counterexample:
  "map status (docs (startServer ''s2'' running_world)) = [Running, Creating] \<and>
   outbox (startServer ''s2'' running_world) =
     [Response False ''Failed to start server'' (Some ReferenceError)]"
  by (simp add: startServer_def findById_def env_call_def launch_def startCustomServer_def
        process_env_in_initialiser_def send_def running_world_def files_server_def custom_server_def)

text \<open>
  C5, amended. For every start attempt in which launching the child process throws,
  \<open>startServer\<close> replies \<open>Failed to start server\<close> with the error, leaves the persisted
  records as they were (the status is not changed) and leaves the Registry untouched:
  no Registry entry exists for that identity afterwards, and nothing was spawned,
  signalled or saved.
\<close>

theorem startServer_launch_failure:
  assumes "findById serverId s = (Inr (Some srv), s1)"
    and "runningServers s serverId = None"
    and "launch srv s1 = Some (Inl e, s2)"
  shows "outbox (startServer serverId s) = outbox s @ [Response False ''Failed to start server'' (Some e)] \<and>
         docs (startServer serverId s) = docs s \<and>
         runningServers (startServer serverId s) = runningServers s \<and>
         runningServers (startServer serverId s) serverId = None \<and>
         trace (startServer serverId s) = trace s"
proof -
  have fr1: "docs s1 = docs s \<and> runningServers s1 = runningServers s \<and> trace s1 = trace s \<and>
     outbox s1 = outbox s" using findById_frame [OF assms(1)] by simp
  have fr2: "docs s2 = docs s1 \<and> runningServers s2 = runningServers s1 \<and> trace s2 = trace s1 \<and>
     outbox s2 = outbox s1" using launch_failure_frame [OF assms(3)] by simp
  have eq: "startServer serverId s = send (Response False ''Failed to start server'' (Some e)) s2"
    using assms fr1 by (simp add: startServer_def)
  show ?thesis using fr1 fr2 assms(2) by (simp add: eq send_def)
qed

theorem startServer_launch_failure_witness:
  "findById ''s2'' running_world = (Inr (Some custom_server), running_world) \<and>
   runningServers running_world ''s2'' = None \<and>
   launch custom_server running_world = Some (Inl ReferenceError, running_world) \<and>
   outbox (startServer ''s2'' running_world) =
     [Response False ''Failed to start server'' (Some ReferenceError)] \<and>
   docs (startServer ''s2'' running_world) = docs running_world \<and>
   runningServers (startServer ''s2'' running_world) ''s2'' = None \<and>
   trace (startServer ''s2'' running_world) = []"
proof -
  have h1: "findById ''s2'' running_world = (Inr (Some custom_server), running_world)"
    by (simp add: findById_def env_call_def running_world_def files_server_def custom_server_def)
  have h2: "runningServers running_world ''s2'' = None" by (simp add: running_world_def)
  have h3: "launch custom_server running_world = Some (Inl ReferenceError, running_world)"
    by (simp add: launch_def startCustomServer_def process_env_in_initialiser_def custom_server_def)
  have o: "outbox running_world = [] \<and> trace running_world = []" by (simp add: running_world_def)
  show ?thesis using startServer_launch_failure [OF h1 h2 h3] h1 h2 h3 o by simp
qed

section \<open>Status\<close>

text \<open>
  C10. Processing a status command is read-only, whether or not the identity exists in
  the store and whatever the store answers: the Registry map and the persisted records
  are the same before and after, and no effect on processes, Registry or store happens.
\<close>

theorem getServerStatus_read_only:
  "runningServers (getServerStatus serverId s) = runningServers s \<and>
   docs (getServerStatus serverId s) = docs s \<and>
   trace (getServerStatus serverId s) = trace s"
proof -
  obtain r s1 where f: "findById serverId s = (r, s1)" by (cases "findById serverId s")
  have fr: "docs s1 = docs s \<and> runningServers s1 = runningServers s \<and> trace s1 = trace s"
    using findById_frame [OF f] by simp
  show ?thesis using f fr
    by (simp add: getServerStatus_def send_def split: sum.splits option.splits)
qed

section \<open>Command channel\<close>



section \<open>Request router\<close>

text \<open>
  C9. A request is forwarded (answered 200) only when a record resolves for it whose
  persisted status is \<open>running\<close> and which has a live Registry entry. For a request
  that carries a server key: when no record resolves the answer is 404; when a record
  resolves but its status is not \<open>running\<close> or it has no Registry entry the answer is
  503, and in both cases store and Registry stay as they were; when a record resolves,
  is \<open>running\<close> and has an entry, and the store answers, the answer is 200 and the
  record is saved with \<open>requestCount\<close> incremented (a count within the exact range of a
  Number) and \<open>lastActivity\<close> set to the current time.
\<close>

theorem post_mcp_routing:
  "(fst (post_mcp regex now req s) = HttpResponse 200 b \<longrightarrow>
      (\<exists>srv p. fst (findOne regex (param_userId req) (param_serverId req) s) = Inr (Some srv) \<and>
         status srv = Running \<and> runningServers s (doc_id srv) = Some p)) \<and>
   (verifyServerAuth req = None \<and>
    fst (findOne regex (param_userId req) (param_serverId req) s) = Inr None \<longrightarrow>
      fst (post_mcp regex now req s) = HttpResponse 404 (ErrorBody ''Server not found'') \<and>
      docs (snd (post_mcp regex now req s)) = docs s \<and>
      runningServers (snd (post_mcp regex now req s)) = runningServers s) \<and>
   (verifyServerAuth req = None \<and>
    fst (findOne regex (param_userId req) (param_serverId req) s) = Inr (Some srv) \<and>
    (status srv \<noteq> Running \<or> runningServers s (doc_id srv) = None) \<longrightarrow>
      status_code (fst (post_mcp regex now req s)) = 503 \<and>
      docs (snd (post_mcp regex now req s)) = docs s \<and>
      runningServers (snd (post_mcp regex now req s)) = runningServers s) \<and>
   (verifyServerAuth req = None \<and> faults s = [] \<and>
    find (\<lambda>d. owner d = param_userId req \<and> regex (param_serverId req) (endpoint d)) (docs s) = Some srv \<and>
    status srv = Running \<and> runningServers s (doc_id srv) = Some p \<and>
    \<bar>requestCount srv + 1\<bar> \<le> 2 ^ 53 \<longrightarrow>
      fst (post_mcp regex now req s) =
        HttpResponse 200 (ProcessedBody (name srv) ''Request processed successfully'') \<and>
      find (\<lambda>d. doc_id d = doc_id srv) (docs (snd (post_mcp regex now req s))) =
        Some (srv\<lparr>requestCount := requestCount srv + 1, lastActivity := now\<rparr>) \<and>
      runningServers (snd (post_mcp regex now req s)) = runningServers s)"
proof (intro conjI impI)
  assume "fst (post_mcp regex now req s) = HttpResponse 200 b"
  then have "fst (mcp_handler regex now req s) = HttpResponse 200 b"
    by (auto simp: post_mcp_def verifyServerAuth_def split: option.splits if_splits)
  then show "\<exists>srv p. fst (findOne regex (param_userId req) (param_serverId req) s) = Inr (Some srv) \<and>
         status srv = Running \<and> runningServers s (doc_id srv) = Some p"
    by (rule mcp_handler_forwarded)
next
  assume a: "verifyServerAuth req = None \<and>
    fst (findOne regex (param_userId req) (param_serverId req) s) = Inr None"
  obtain s1 where f: "findOne regex (param_userId req) (param_serverId req) s = (Inr None, s1)"
    using a by (cases "findOne regex (param_userId req) (param_serverId req) s") simp
  have eq: "post_mcp regex now req s = (HttpResponse 404 (ErrorBody ''Server not found''), s1)"
    using a f by (simp add: post_mcp_def mcp_handler_def)
  show "fst (post_mcp regex now req s) = HttpResponse 404 (ErrorBody ''Server not found'')"
    and "docs (snd (post_mcp regex now req s)) = docs s"
    and "runningServers (snd (post_mcp regex now req s)) = runningServers s"
    using findOne_frame [OF f] by (simp_all add: eq)
next
  assume a: "verifyServerAuth req = None \<and>
    fst (findOne regex (param_userId req) (param_serverId req) s) = Inr (Some srv) \<and>
    (status srv \<noteq> Running \<or> runningServers s (doc_id srv) = None)"
  obtain s1 where f: "findOne regex (param_userId req) (param_serverId req) s = (Inr (Some srv), s1)"
    using a by (cases "findOne regex (param_userId req) (param_serverId req) s") simp
  have fr: "docs s1 = docs s \<and> runningServers s1 = runningServers s" using findOne_frame [OF f] by simp
  have eq: "\<exists>msg. post_mcp regex now req s = (HttpResponse 503 (ErrorBody msg), s1)"
    using a f fr by (auto simp: post_mcp_def mcp_handler_def)
  show "status_code (fst (post_mcp regex now req s)) = 503"
    and "docs (snd (post_mcp regex now req s)) = docs s"
    and "runningServers (snd (post_mcp regex now req s)) = runningServers s"
    using eq fr by auto
next
  assume a: "verifyServerAuth req = None \<and> faults s = [] \<and>
    find (\<lambda>d. owner d = param_userId req \<and> regex (param_serverId req) (endpoint d)) (docs s) = Some srv \<and>
    status srv = Running \<and> runningServers s (doc_id srv) = Some p \<and>
    \<bar>requestCount srv + 1\<bar> \<le> 2 ^ 53"
  let ?srv' = "srv\<lparr>requestCount := requestCount srv + 1, lastActivity := now\<rparr>"
  have m: "srv \<in> set (docs s)" using a find_in_set by fast
  have eq: "post_mcp regex now req s =
      (HttpResponse 200 (ProcessedBody (name srv) ''Request processed successfully''),
       log_event (Saved (doc_id srv) Running)
         (s\<lparr>docs := map (\<lambda>d. if doc_id d = doc_id srv then ?srv' else d) (docs s)\<rparr>))"
    using a by (simp add: post_mcp_def mcp_handler_def findOne_no_faults save_no_faults
          number_add_one_exact)
  show "fst (post_mcp regex now req s) =
        HttpResponse 200 (ProcessedBody (name srv) ''Request processed successfully'')"
    and "find (\<lambda>d. doc_id d = doc_id srv) (docs (snd (post_mcp regex now req s))) = Some ?srv'"
    and "runningServers (snd (post_mcp regex now req s)) = runningServers s"
    using find_after_update_member [OF m, of ?srv'] by (simp_all add: eq log_event_def)
qed

text \<open>
  The witness: a request for the endpoint of the running server \<open>s1\<close> is forwarded and
  counted, one for an endpoint nobody owns is answered 404, and one for the endpoint of
  \<open>s2\<close>, which is not running, is answered 503.
\<close>

theorem post_mcp_routing_witness:
  "fst (post_mcp literal_search 200 (request_for ''e1'') running_world) =
     HttpResponse 200 (ProcessedBody ''files'' ''Request processed successfully'') \<and>
   find (\<lambda>d. doc_id d = ''s1'') (docs (snd (post_mcp literal_search 200 (request_for ''e1'') running_world))) =
     Some (files_server\<lparr>requestCount := 5, lastActivity := 200\<rparr>) \<and>
   status files_server = Running \<and> runningServers running_world ''s1'' = Some 7 \<and>
   fst (post_mcp literal_search 200 (request_for ''e9'') running_world) =
     HttpResponse 404 (ErrorBody ''Server not found'') \<and>
   status custom_server = Creating \<and>
   status_code (fst (post_mcp literal_search 200 (request_for ''e2'') running_world)) = 503"
proof -
  have f: "faults running_world = []" by (simp add: running_world_def)
  have auth: "verifyServerAuth (request_for e) = None" for e
    by (simp add: verifyServerAuth_def request_for_def)
  have p: "param_userId (request_for e) = ''u1'' \<and> param_serverId (request_for e) = e" for e
    by (simp add: request_for_def)
  have l1: "fst (findOne literal_search ''u1'' ''e1'' running_world) = Inr (Some files_server)"
    and l2: "fst (findOne literal_search ''u1'' ''e2'' running_world) = Inr (Some custom_server)"
    and l9: "fst (findOne literal_search ''u1'' ''e9'' running_world) = Inr None"
    by (simp_all add: findOne_no_faults [OF f] resolve_e1 resolve_e2 resolve_e9)
  have fs: "status files_server = Running \<and> doc_id files_server = ''s1'' \<and>
      requestCount files_server = 4 \<and> name files_server = ''files''"
    by (simp add: files_server_def)
  have cs: "status custom_server = Creating" by (simp add: custom_server_def)
  have r: "runningServers running_world ''s1'' = Some 7" by (simp add: running_world_def)
  note t1 = post_mcp_routing [of literal_search 200 "request_for ''e1''" running_world
      "ProcessedBody ''files'' ''Request processed successfully''" files_server 7]
  note t2 = post_mcp_routing [of literal_search 200 "request_for ''e2''" running_world
      "ProcessedBody ''files'' ''Request processed successfully''" custom_server 7]
  note t9 = post_mcp_routing [of literal_search 200 "request_for ''e9''" running_world
      "ProcessedBody ''files'' ''Request processed successfully''" custom_server 7]
  have a: "fst (post_mcp literal_search 200 (request_for ''e1'') running_world) =
        HttpResponse 200 (ProcessedBody (name files_server) ''Request processed successfully'') \<and>
      find (\<lambda>d. doc_id d = doc_id files_server)
        (docs (snd (post_mcp literal_search 200 (request_for ''e1'') running_world))) =
        Some (files_server\<lparr>requestCount := requestCount files_server + 1, lastActivity := 200\<rparr>)"
    using t1 auth [of "''e1''"] f resolve_e1 fs r by (simp add: p)
  have b: "fst (post_mcp literal_search 200 (request_for ''e9'') running_world) =
      HttpResponse 404 (ErrorBody ''Server not found'')"
    using t9 auth [of "''e9''"] l9 by (simp add: p)
  have c: "status_code (fst (post_mcp literal_search 200 (request_for ''e2'') running_world)) = 503"
    using t2 auth [of "''e2''"] l2 cs by (simp add: p)
  show ?thesis using a b c fs cs r by simp
qed

section \<open>Credentials\<close>

text \<open>
  C6 does not hold of the server manager. Its \<open>getDecryptedApiKey\<close> reads
  \<open>crypto.AES\<close> of the built-in module, which is undefined, so the decryption throws
  inside the \<open>try\<close> and the answer is the empty string for every record, key name and
  encryption key: a stored ciphertext of a non-empty value never decrypts to that value.
\<close>

theorem manager_decrypt_yields_empty:
  "getDecryptedApiKey node_crypto ekey srv key = '''' \<and>
   getDecryptedApiKey node_crypto ekey
     (files_server\<lparr>apiKeys := Some [(''BRAVE_API_KEY'', encrypt aes ''BSA-123'' ekey)]\<rparr>)
     ''BRAVE_API_KEY'' = ''''"
proof -
  have empty: "getDecryptedApiKey node_crypto k r n = ''''" for k r n
  proof (cases "apiKeys r")
    case None
    then show ?thesis by (simp add: getDecryptedApiKey_def)
  next
    case (Some ks)
    then show ?thesis
      by (cases "map_of ks n") (simp_all add: getDecryptedApiKey_def node_crypto_def)
  qed
  show ?thesis by (simp add: empty)
qed

text \<open>
  C7 does not hold of the credential write path. Writing a first key and then a second
  key to the same server leaves the first value encrypted twice: the second save finds
  \<open>apiKeys\<close> modified and encrypts every value of it, the ciphertext of the first
  key included.
\<close>

theorem second_key_reencrypts_first:
  "map apiKeys (docs (snd (put_apikey aes ekey owner_u1 ''s1'' ''GITHUB_PERSONAL_ACCESS_TOKEN'' ''ghp_456''
      (snd (put_apikey aes ekey owner_u1 ''s1'' ''BRAVE_API_KEY'' ''BSA-123'' running_world))))) =
   [Some [(''BRAVE_API_KEY'', encrypt aes (encrypt aes ''BSA-123'' ekey) ekey),
          (''GITHUB_PERSONAL_ACCESS_TOKEN'', encrypt aes ''ghp_456'' ekey)],
    Some []]"
  by (simp add: put_apikey_def findById_def env_call_def model_save_def pre_save_def save_def
        log_event_def running_world_def files_server_def custom_server_def owner_u1_def)

text \<open>
  What the re-encryption does to a reader: for a cipher that decrypts its own
  ciphertexts, \<open>getDecryptedApiKeys\<close> afterwards answers the ciphertext of the first
  value where its plaintext is expected.
\<close>

lemma reencrypted_key_reads_as_ciphertext:
  assumes "\<And>v. decrypt aes (encrypt aes v ekey) ekey = Inr v"
  shows "map (getDecryptedApiKeys aes ekey)
           (docs (snd (put_apikey aes ekey owner_u1 ''s1'' ''GITHUB_PERSONAL_ACCESS_TOKEN'' ''ghp_456''
              (snd (put_apikey aes ekey owner_u1 ''s1'' ''BRAVE_API_KEY'' ''BSA-123'' running_world))))) =
         [Inr [(''BRAVE_API_KEY'', encrypt aes ''BSA-123'' ekey),
               (''GITHUB_PERSONAL_ACCESS_TOKEN'', ''ghp_456'')],
          Inr []]"
  using assms
  by (simp add: put_apikey_def findById_def env_call_def model_save_def pre_save_def save_def
        log_event_def getDecryptedApiKeys_def running_world_def files_server_def
        custom_server_def owner_u1_def)

end
